theory Spec2Isabelle
  imports Complex_Main "HOL-Library.Sublist"
begin

section \<open>Python values, exceptions and strings\<close>

text \<open>
  Exceptions are values.  Every constructor below is a subclass of Python's
  \<open>Exception\<close>; \<open>JSONDecodeError\<close> is a subclass of \<open>ValueError\<close> and is kept apart
  because the source names both.  \<open>LibraryError\<close> stands for an exception raised inside
  the PDF collaborator.  A result \<open>Inl e\<close> means that the call raised \<open>e\<close> to its
  caller; \<open>Inr v\<close> means that it returned \<open>v\<close>.
\<close>

datatype error =
    ValueError
  | JSONDecodeError
  | KeyError
  | IndexError
  | TypeError
  | AttributeError
  | OverflowError
  | UnboundLocalError
  | ZeroDivisionError
  | LibraryError string

text \<open>
  Python floats are modelled as real numbers: rounding, infinities and NaN are outside
  the model.  A value read from the JSON file is dynamically typed, so the fields that
  \<open>load_invoices\<close> fills without conversion hold a \<open>json\<close> value.  A \<open>JObj\<close> lists the
  members in file order; a later member with the same key wins, as in \<open>json.load\<close>.
\<close>

datatype json =
    JNull
  | JBool bool
  | JInt int
  | JFloat real
  | JStr string
  | JArr "json list"
  | JObj "(string \<times> json) list"

definition is_digit :: "char \<Rightarrow> bool" where
  "is_digit c = (c \<in> set ''0123456789'')"

definition digit_val :: "char \<Rightarrow> nat" where
  "digit_val c = of_char c - 48"

definition digit_chr :: "nat \<Rightarrow> char" where
  "digit_chr n = ''0123456789'' ! (n mod 10)"

definition is_space :: "char \<Rightarrow> bool" where
  "is_space c = (let n = (of_char c :: nat) in (9 \<le> n \<and> n \<le> 13) \<or> (28 \<le> n \<and> n \<le> 32))"

text \<open>\<open>str.strip()\<close>, \<open>str.lower()\<close>, \<open>sub in s\<close> and \<open>s.split(sep)\<close> on ASCII text.\<close>

definition strip :: "string \<Rightarrow> string" where
  "strip s = rev (dropWhile is_space (rev (dropWhile is_space s)))"

definition lower_chr :: "char \<Rightarrow> char" where
  "lower_chr c = (let n = (of_char c :: nat) in if 65 \<le> n \<and> n \<le> 90 then char_of (n + 32) else c)"

definition lower :: "string \<Rightarrow> string" where
  "lower s = map lower_chr s"

fun contains :: "string \<Rightarrow> string \<Rightarrow> bool" where
  "contains sub [] = (sub = [])"
| "contains sub (c # cs) = (prefix sub (c # cs) \<or> contains sub cs)"

fun split_on :: "char \<Rightarrow> string \<Rightarrow> string list" where
  "split_on sep [] = [[]]"
| "split_on sep (c # cs) =
     (if c = sep then [] # split_on sep cs
      else (let r = split_on sep cs in (c # hd r) # tl r))"

text \<open>
  \<open>int(s)\<close> on ASCII text: surrounding whitespace is stripped, one sign is allowed,
  and the digits may be grouped by single underscores.  \<open>None\<close> is \<open>ValueError\<close>.
\<close>

fun digits_val :: "string \<Rightarrow> nat \<Rightarrow> nat option" where
  "digits_val [] acc = Some acc"
| "digits_val (c # cs) acc =
     (if is_digit c then digits_val cs (10 * acc + digit_val c)
      else if c = CHR ''_'' \<and> cs \<noteq> [] \<and> is_digit (hd cs) then digits_val cs acc
      else None)"

definition parse_digits :: "string \<Rightarrow> nat option" where
  "parse_digits s =
     (case s of [] \<Rightarrow> None
      | c # _ \<Rightarrow> if is_digit c then digits_val s 0 else None)"

definition py_int :: "string \<Rightarrow> int option" where
  "py_int s =
     (case strip s of [] \<Rightarrow> None
      | c # r \<Rightarrow>
          if c = CHR ''-'' then map_option (\<lambda>n. - int n) (parse_digits r)
          else if c = CHR ''+'' then map_option int (parse_digits r)
          else map_option int (parse_digits (c # r)))"

text \<open>Decimal rendering of a natural number, and \<open>%0wd\<close> zero padding.\<close>

function str_nat :: "nat \<Rightarrow> string" where
  "str_nat n = (if n < 10 then [digit_chr n] else str_nat (n div 10) @ [digit_chr n])"
  by pat_completeness auto
termination
  by (relation "measure id") auto

declare str_nat.simps [simp del]

definition zfill :: "nat \<Rightarrow> string \<Rightarrow> string" where
  "zfill w s = replicate (w - length s) CHR ''0'' @ s"

section \<open>Calendar dates\<close>

record date =
  year :: int
  month :: int
  day :: int

definition is_leap :: "int \<Rightarrow> bool" where
  "is_leap y = (y mod 4 = 0 \<and> (y mod 100 \<noteq> 0 \<or> y mod 400 = 0))"

definition days_in_month :: "int \<Rightarrow> int \<Rightarrow> int" where
  "days_in_month y m =
     (if m = 2 then (if is_leap y then 29 else 28)
      else if m = 4 \<or> m = 6 \<or> m = 9 \<or> m = 11 then 30 else 31)"

definition MINYEAR :: int where "MINYEAR = 1"
definition MAXYEAR :: int where "MAXYEAR = 9999"

definition c_int :: "int \<Rightarrow> bool" where
  "c_int n = (- 2147483648 \<le> n \<and> n \<le> 2147483647)"

definition valid_date :: "date \<Rightarrow> bool" where
  "valid_date d =
     (MINYEAR \<le> year d \<and> year d \<le> MAXYEAR \<and> 1 \<le> month d \<and> month d \<le> 12
      \<and> 1 \<le> day d \<and> day d \<le> days_in_month (year d) (month d))"

text \<open>
  \<open>datetime.date(y, m, d)\<close>: the C constructor raises \<open>OverflowError\<close> for an argument
  that does not fit a C int and \<open>ValueError\<close> for one outside the calendar.
\<close>

definition py_date :: "int \<Rightarrow> int \<Rightarrow> int \<Rightarrow> error + date" where
  "py_date y m d =
     (if \<not> (c_int y \<and> c_int m \<and> c_int d) then Inl OverflowError
      else if valid_date \<lparr>year = y, month = m, day = d\<rparr>
      then Inr \<lparr>year = y, month = m, day = d\<rparr>
      else Inl ValueError)"

text \<open>\<open>calendar.monthrange(y, m)[1]\<close>; a month outside 1..12 raises \<open>IllegalMonthError\<close>,
  a \<open>ValueError\<close>.\<close>

definition monthrange_days :: "int \<Rightarrow> int \<Rightarrow> error + int" where
  "monthrange_days y m = (if 1 \<le> m \<and> m \<le> 12 then Inr (days_in_month y m) else Inl ValueError)"

text \<open>\<open>a <= b\<close> on dates compares year, month and day in this order.\<close>

definition date_le :: "date \<Rightarrow> date \<Rightarrow> bool" where
  "date_le a b =
     (year a < year b \<or> (year a = year b \<and>
        (month a < month b \<or> (month a = month b \<and> day a \<le> day b))))"

definition isoformat :: "date \<Rightarrow> string" where
  "isoformat d =
     zfill 4 (str_nat (nat (year d))) @ ''-'' @ zfill 2 (str_nat (nat (month d)))
       @ ''-'' @ zfill 2 (str_nat (nat (day d)))"

text \<open>\<open>date.strftime('%Y%m%d')\<close>, with the four-digit year of the library's documentation.\<close>

definition strftime_Ymd :: "date \<Rightarrow> string" where
  "strftime_Ymd d =
     zfill 4 (str_nat (nat (year d))) @ zfill 2 (str_nat (nat (month d)))
       @ zfill 2 (str_nat (nat (day d)))"

section \<open>The calculator (calculator-py.py)\<close>

text \<open>
  The dataclass does not enforce its annotations: \<open>load_invoices\<close> stores the
  description and the identifier exactly as the file holds them, so both are \<open>json\<close>
  values here; the date and the amount are always converted.
\<close>

record invoice =
  date :: date
  amount :: real
  description :: json
  invoice_id :: json

record calculator =
  data_file :: string
  fed_tax_rate :: json
  state_tax_rate :: json
  state_code :: json
  invoices :: "invoice list"

text \<open>
  The file system: an existing file either fails \<open>json.load\<close> with \<open>JSONDecodeError\<close>
  (\<open>NotJson\<close>) or decodes to a value.  Opening a file for writing fails where
  \<open>writable\<close> is false.
\<close>

datatype file_content = NotJson | Json json

record fsys =
  contents :: "string \<Rightarrow> file_content option"
  writable :: "string \<Rightarrow> bool"

subsection \<open>Quarter bounds and earnings\<close>

definition get_quarter_bounds :: "int \<Rightarrow> int \<Rightarrow> error + (date \<times> date)" where
  "get_quarter_bounds yr quarter =
     (if quarter < 1 \<or> quarter > 4 then Inl ValueError
      else
        let start_month = (quarter - 1) * 3 + 1;
            end_month = quarter * 3
        in case py_date yr start_month 1 of Inl e \<Rightarrow> Inl e
           | Inr start_date \<Rightarrow>
        (case monthrange_days yr end_month of Inl e \<Rightarrow> Inl e
           | Inr last_day \<Rightarrow>
        (case py_date yr end_month last_day of Inl e \<Rightarrow> Inl e
           | Inr end_date \<Rightarrow> Inr (start_date, end_date))))"

text \<open>The loop \<open>for inv in self.invoices: if start <= inv.date <= end: total += inv.amount\<close>.\<close>

fun sum_between :: "date \<Rightarrow> date \<Rightarrow> invoice list \<Rightarrow> real \<Rightarrow> real" where
  "sum_between start_date end_date [] tot = tot"
| "sum_between start_date end_date (iv # rest) tot =
     sum_between start_date end_date rest
       (if date_le start_date (date iv) \<and> date_le (date iv) end_date
        then tot + amount iv else tot)"

definition get_quarterly_earnings :: "calculator \<Rightarrow> int \<Rightarrow> int \<Rightarrow> error + real" where
  "get_quarterly_earnings self yr quarter =
     (case get_quarter_bounds yr quarter of Inl e \<Rightarrow> Inl e
      | Inr (start_date, end_date) \<Rightarrow> Inr (sum_between start_date end_date (invoices self) 0))"

definition get_yearly_earnings :: "calculator \<Rightarrow> int \<Rightarrow> error + real" where
  "get_yearly_earnings self yr =
     (case py_date yr 1 1 of Inl e \<Rightarrow> Inl e
      | Inr start_date \<Rightarrow>
     (case py_date yr 12 31 of Inl e \<Rightarrow> Inl e
      | Inr end_date \<Rightarrow> Inr (sum_between start_date end_date (invoices self) 0)))"

text \<open>\<open>earnings * rate\<close> where the rate is whatever the configuration holds.\<close>

definition mul_rate :: "real \<Rightarrow> json \<Rightarrow> error + real" where
  "mul_rate x r =
     (case r of JFloat f \<Rightarrow> Inr (x * f)
      | JInt n \<Rightarrow> Inr (x * of_int n)
      | JBool b \<Rightarrow> Inr (x * (if b then 1 else 0))
      | _ \<Rightarrow> Inl TypeError)"

definition calculate_quarterly_federal_tax :: "calculator \<Rightarrow> int \<Rightarrow> int \<Rightarrow> error + real" where
  "calculate_quarterly_federal_tax self yr quarter =
     (case get_quarterly_earnings self yr quarter of Inl e \<Rightarrow> Inl e
      | Inr earnings \<Rightarrow> mul_rate earnings (fed_tax_rate self))"

definition calculate_quarterly_state_tax :: "calculator \<Rightarrow> int \<Rightarrow> int \<Rightarrow> error + real" where
  "calculate_quarterly_state_tax self yr quarter =
     (case get_quarterly_earnings self yr quarter of Inl e \<Rightarrow> Inl e
      | Inr earnings \<Rightarrow> mul_rate earnings (state_tax_rate self))"

subsection \<open>SEP contribution\<close>

record sep_info =
  yearly_earnings :: real
  potential_contribution :: real
  actual_contribution :: real
  max_contribution_limit :: int
  contribution_percent :: real

definition truediv :: "real \<Rightarrow> real \<Rightarrow> error + real" where
  "truediv a b = (if b = 0 then Inl ZeroDivisionError else Inr (a / b))"

definition calculate_sep_401k_limit :: "calculator \<Rightarrow> int \<Rightarrow> error + sep_info" where
  "calculate_sep_401k_limit self yr =
     (case get_yearly_earnings self yr of Inl e \<Rightarrow> Inl e
      | Inr earnings \<Rightarrow>
          let effective_rate = 0.20;
              limit = (69000 :: int);
              potential = earnings * effective_rate;
              actual = min potential (of_int limit)
          in case (if earnings = 0 then Inr 0
                   else case truediv actual earnings of Inl e \<Rightarrow> Inl e
                        | Inr p \<Rightarrow> Inr (p * 100)) of
               Inl e \<Rightarrow> Inl e
             | Inr percent \<Rightarrow>
                 Inr \<lparr>yearly_earnings = earnings, potential_contribution = potential,
                      actual_contribution = actual, max_contribution_limit = limit,
                      contribution_percent = percent\<rparr>)"

subsection \<open>Quarterly report\<close>

record quarter_report =
  earnings :: real
  fed_tax :: real
  state_tax :: real
  total_tax :: real
  invoice_count :: nat

record report =
  report_year :: int
  quarters :: "(int \<times> quarter_report) list"
  sep_401k :: "sep_info option"

definition seq :: "error + 'a \<Rightarrow> ('a \<Rightarrow> error + 'b) \<Rightarrow> error + 'b" where
  "seq r f = (case r of Inl e \<Rightarrow> Inl e | Inr v \<Rightarrow> f v)"

definition quarter_entry :: "calculator \<Rightarrow> int \<Rightarrow> int \<Rightarrow> error + quarter_report" where
  "quarter_entry self yr q =
     seq (get_quarterly_earnings self yr q) (\<lambda>e.
     seq (calculate_quarterly_federal_tax self yr q) (\<lambda>ft.
     seq (calculate_quarterly_state_tax self yr q) (\<lambda>st.
     seq (get_quarter_bounds yr q) (\<lambda>(start_date, end_date).
       Inr \<lparr>earnings = e, fed_tax = ft, state_tax = st, total_tax = ft + st,
            invoice_count =
              length (filter (\<lambda>iv. date_le start_date (date iv) \<and> date_le (date iv) end_date)
                        (invoices self))\<rparr>))))"

text \<open>The loop over the requested quarters; \<open>report['quarters'][q] = ...\<close> adds a new
  key each time, since the requested quarters are distinct.\<close>

fun report_quarters ::
  "calculator \<Rightarrow> int \<Rightarrow> int list \<Rightarrow> (int \<times> quarter_report) list
     \<Rightarrow> error + (int \<times> quarter_report) list" where
  "report_quarters self yr [] done = Inr done"
| "report_quarters self yr (q # qs) done =
     seq (quarter_entry self yr q) (\<lambda>entry.
       report_quarters self yr qs (done @ [(q, entry)]))"

definition generate_quarterly_report :: "calculator \<Rightarrow> int \<Rightarrow> int option \<Rightarrow> error + report" where
  "generate_quarterly_report self yr quarter =
     (let qs = (case quarter of Some q \<Rightarrow> [q] | None \<Rightarrow> [1, 2, 3, 4])
      in seq (report_quarters self yr qs []) (\<lambda>entries.
         case quarter of
           Some q \<Rightarrow> Inr \<lparr>report_year = yr, quarters = entries, sep_401k = None\<rparr>
         | None \<Rightarrow>
             seq (calculate_sep_401k_limit self yr) (\<lambda>sep.
               Inr \<lparr>report_year = yr, quarters = entries, sep_401k = Some sep\<rparr>)))"

subsection \<open>Persistence\<close>

definition invoice_json :: "invoice \<Rightarrow> json" where
  "invoice_json iv =
     JObj [(''date'', JStr (isoformat (date iv))), (''amount'', JFloat (amount iv)),
           (''description'', description iv), (''invoice_id'', invoice_id iv)]"

definition save_data :: "calculator \<Rightarrow> json" where
  "save_data self =
     JObj [(''fed_tax_rate'', fed_tax_rate self), (''state_tax_rate'', state_tax_rate self),
           (''state_code'', state_code self),
           (''invoices'', JArr (map invoice_json (invoices self)))]"

text \<open>\<open>save_invoices\<close>: a failure to open the file is caught and printed; the file is
  then left as it was.\<close>

definition save_invoices :: "calculator \<Rightarrow> fsys \<Rightarrow> fsys" where
  "save_invoices self fs =
     (if writable fs (data_file self)
      then fs\<lparr>contents := (contents fs)(data_file self := Some (Json (save_data self)))\<rparr>
      else fs)"

text \<open>\<open>d.get(k, default)\<close> and \<open>v[k]\<close> on a decoded value, iteration over it, and
  \<open>float(v)\<close>.  \<open>str_to_float\<close> is Python's \<open>float\<close> on a string, \<open>None\<close> for
  \<open>ValueError\<close>.\<close>

definition dict_get :: "json \<Rightarrow> string \<Rightarrow> json \<Rightarrow> error + json" where
  "dict_get d k dflt =
     (case d of JObj kvs \<Rightarrow> (case map_of (rev kvs) k of Some v \<Rightarrow> Inr v | None \<Rightarrow> Inr dflt)
      | _ \<Rightarrow> Inl AttributeError)"

definition subscript :: "json \<Rightarrow> string \<Rightarrow> error + json" where
  "subscript d k =
     (case d of JObj kvs \<Rightarrow> (case map_of (rev kvs) k of Some v \<Rightarrow> Inr v | None \<Rightarrow> Inl KeyError)
      | _ \<Rightarrow> Inl TypeError)"

definition py_iter :: "json \<Rightarrow> error + json list" where
  "py_iter v =
     (case v of JArr xs \<Rightarrow> Inr xs
      | JObj kvs \<Rightarrow> Inr (map JStr (remdups (map fst kvs)))
      | JStr s \<Rightarrow> Inr (map (\<lambda>c. JStr [c]) s)
      | _ \<Rightarrow> Inl TypeError)"

definition split_dash :: "json \<Rightarrow> error + string list" where
  "split_dash v = (case v of JStr s \<Rightarrow> Inr (split_on CHR ''-'' s) | _ \<Rightarrow> Inl AttributeError)"

definition ints_of :: "string list \<Rightarrow> error + int list" where
  "ints_of parts = (case those (map py_int parts) of None \<Rightarrow> Inl ValueError | Some ns \<Rightarrow> Inr ns)"

definition py_float :: "(string \<Rightarrow> real option) \<Rightarrow> json \<Rightarrow> error + real" where
  "py_float str_to_float v =
     (case v of JFloat r \<Rightarrow> Inr r
      | JInt n \<Rightarrow> Inr (of_int n)
      | JBool b \<Rightarrow> Inr (if b then 1 else 0)
      | JStr s \<Rightarrow> (case str_to_float s of None \<Rightarrow> Inl ValueError | Some r \<Rightarrow> Inr r)
      | _ \<Rightarrow> Inl TypeError)"

definition load_invoice :: "(string \<Rightarrow> real option) \<Rightarrow> json \<Rightarrow> error + invoice" where
  "load_invoice str_to_float iv =
     seq (subscript iv ''date'') (\<lambda>date_v.
     seq (split_dash date_v) (\<lambda>parts.
     seq (ints_of parts) (\<lambda>date_parts.
     seq (if length date_parts < 3 then Inl IndexError
          else py_date (date_parts ! 0) (date_parts ! 1) (date_parts ! 2)) (\<lambda>d.
     seq (subscript iv ''amount'') (\<lambda>amount_v.
     seq (py_float str_to_float amount_v) (\<lambda>a.
     seq (subscript iv ''description'') (\<lambda>desc.
     seq (subscript iv ''invoice_id'') (\<lambda>iid.
       Inr \<lparr>date = d, amount = a, description = desc, invoice_id = iid\<rparr>))))))))"

fun load_loop :: "(string \<Rightarrow> real option) \<Rightarrow> json list \<Rightarrow> invoice list \<Rightarrow> error + invoice list" where
  "load_loop str_to_float [] loaded = Inr loaded"
| "load_loop str_to_float (iv # rest) loaded =
     seq (load_invoice str_to_float iv) (\<lambda>x. load_loop str_to_float rest (loaded @ [x]))"

text \<open>The body of the \<open>try\<close> block, after \<open>json.load\<close> returned \<open>data\<close>.\<close>

definition load_body :: "(string \<Rightarrow> real option) \<Rightarrow> calculator \<Rightarrow> json \<Rightarrow> error + calculator" where
  "load_body str_to_float self data =
     seq (dict_get data ''invoices'' (JArr [])) (\<lambda>inv_list.
     seq (py_iter inv_list) (\<lambda>items.
     seq (load_loop str_to_float items []) (\<lambda>loaded.
     seq (dict_get data ''fed_tax_rate'' (fed_tax_rate self)) (\<lambda>fed.
     seq (dict_get data ''state_tax_rate'' (state_tax_rate self)) (\<lambda>st.
     seq (dict_get data ''state_code'' (state_code self)) (\<lambda>code.
       Inr (self\<lparr>invoices := loaded, fed_tax_rate := fed, state_tax_rate := st,
                  state_code := code\<rparr>)))))))"

text \<open>The handler \<open>except (json.JSONDecodeError, KeyError, ValueError, IndexError)\<close>.\<close>

definition load_caught :: "error \<Rightarrow> bool" where
  "load_caught e = (e = JSONDecodeError \<or> e = KeyError \<or> e = ValueError \<or> e = IndexError)"

definition load_invoices :: "(string \<Rightarrow> real option) \<Rightarrow> calculator \<Rightarrow> fsys \<Rightarrow> error + calculator" where
  "load_invoices str_to_float self fs =
     (case contents fs (data_file self) of
        None \<Rightarrow> Inr self
      | Some NotJson \<Rightarrow> Inr (self\<lparr>invoices := []\<rparr>)
      | Some (Json data) \<Rightarrow>
          (case load_body str_to_float self data of
             Inr self' \<Rightarrow> Inr self'
           | Inl e \<Rightarrow> if load_caught e then Inr (self\<lparr>invoices := []\<rparr>) else Inl e))"

text \<open>\<open>__init__\<close>, with \<open>os.path.join(data_dir, "invoices.json")\<close> for the default file.
  The directory is taken to exist or to be creatable.\<close>

definition path_join :: "string \<Rightarrow> string \<Rightarrow> string" where
  "path_join dir name =
     (if dir = [] \<or> last dir = CHR ''/'' then dir @ name else dir @ ''/'' @ name)"

definition calculator_init ::
  "(string \<Rightarrow> real option) \<Rightarrow> fsys \<Rightarrow> string \<Rightarrow> string option \<Rightarrow> real \<Rightarrow> real \<Rightarrow> string
     \<Rightarrow> error + calculator" where
  "calculator_init str_to_float fs data_dir file fed st code =
     load_invoices str_to_float
       \<lparr>data_file = (case file of None \<Rightarrow> path_join data_dir ''invoices.json'' | Some f \<Rightarrow> f),
        fed_tax_rate = JFloat fed, state_tax_rate = JFloat st, state_code = JStr code,
        invoices = []\<rparr> fs"

subsection \<open>Mutations\<close>

text \<open>The messages, with the values the f-strings interpolate.\<close>

datatype message =
    InvoiceAdded string
  | InvoiceDeleted string
  | InvoiceNotFound string
  | TaxRatesUpdated real real string
  | TaxRatesOutOfRange

text \<open>\<open>add_invoice\<close>: no statement inside its \<open>try\<close> block raises for arguments of the
  annotated types (\<open>save_invoices\<close> absorbs its own failure), so the handler's branch
  \<open>(False, "Error adding invoice: ...")\<close> is never taken and has no counterpart here.\<close>

definition add_invoice ::
  "calculator \<Rightarrow> fsys \<Rightarrow> date \<Rightarrow> real \<Rightarrow> string \<Rightarrow> string option
     \<Rightarrow> calculator \<times> fsys \<times> bool \<times> message" where
  "add_invoice self fs d a desc given_id =
     (let new_id = (case given_id of
                      None \<Rightarrow> ''INV-'' @ strftime_Ymd d @ ''-''
                               @ zfill 4 (str_nat (length (invoices self)))
                    | Some i \<Rightarrow> i);
          self' = self\<lparr>invoices := invoices self
                    @ [\<lparr>date = d, amount = a, description = JStr desc, invoice_id = JStr new_id\<rparr>]\<rparr>
      in (self', save_invoices self' fs, True, InvoiceAdded new_id))"

fun delete_first :: "string \<Rightarrow> invoice list \<Rightarrow> invoice list option" where
  "delete_first k [] = None"
| "delete_first k (iv # rest) =
     (if invoice_id iv = JStr k then Some rest
      else map_option ((#) iv) (delete_first k rest))"

definition delete_invoice ::
  "calculator \<Rightarrow> fsys \<Rightarrow> string \<Rightarrow> calculator \<times> fsys \<times> bool \<times> message" where
  "delete_invoice self fs k =
     (case delete_first k (invoices self) of
        Some rest \<Rightarrow>
          (let self' = self\<lparr>invoices := rest\<rparr>
           in (self', save_invoices self' fs, True, InvoiceDeleted k))
      | None \<Rightarrow> (self, fs, False, InvoiceNotFound k))"

definition set_tax_rates ::
  "calculator \<Rightarrow> fsys \<Rightarrow> real \<Rightarrow> real \<Rightarrow> string \<Rightarrow> calculator \<times> fsys \<times> bool \<times> message" where
  "set_tax_rates self fs fed_rate state_rate code =
     (if 0 \<le> fed_rate \<and> fed_rate \<le> 1 \<and> 0 \<le> state_rate \<and> state_rate \<le> 1
      then (let self' = self\<lparr>fed_tax_rate := JFloat fed_rate, state_tax_rate := JFloat state_rate,
                              state_code := JStr code\<rparr>
            in (self', save_invoices self' fs, True, TaxRatesUpdated fed_rate state_rate code))
      else (self, fs, False, TaxRatesOutOfRange))"

section \<open>The PDF extractor (pdf-extractor-py.py)\<close>

text \<open>
  What the PDF collaborator hands over: opening the document may raise; each page gives
  its text (possibly \<open>None\<close>) and its tables, and either call may raise.  A cell is a
  string or \<open>None\<close>.
\<close>

type_synonym cell = "string option"
type_synonym row = "cell list"
type_synonym table = "row list"

record page =
  extract_text :: "error + string option"
  extract_tables :: "error + table list"

type_synonym document = "error + page list"

record candidate =
  cand_date :: date
  cand_amount :: real
  cand_description :: string
  cand_currency :: string
  cand_doc_number :: string

text \<open>The regular-expression and \<open>strptime\<close> library, taken as given.  The patterns
  and formats are named after the literals of the source, in their order.\<close>

datatype text_pattern = Labelled_pattern | Tabular_pattern
datatype date_pattern = P_slash | P_ymd_dash | P_dmy_dash | P_dmy_dot
datatype date_format = F_dmy_slash | F_mdy_slash | F_ymd_dash | F_dmy_dash | F_dmy_dot

record relib =
  findall :: "text_pattern \<Rightarrow> string \<Rightarrow> (string \<times> string \<times> string) list"
  re_match :: "date_pattern \<Rightarrow> string \<Rightarrow> bool"
  strptime :: "string \<Rightarrow> date_format \<Rightarrow> date option"

text \<open>\<open>str(x).strip() if x else ""\<close> and the truth value of a cell.\<close>

definition cell_str :: "cell \<Rightarrow> string" where
  "cell_str c = (case c of None \<Rightarrow> [] | Some s \<Rightarrow> if s = [] then [] else strip s)"

definition truthy :: "cell \<Rightarrow> bool" where
  "truthy c = (case c of None \<Rightarrow> False | Some s \<Rightarrow> s \<noteq> [])"

text \<open>\<open>next(i for i, h in enumerate(headers) if word in h.lower())\<close>; \<open>None\<close> is
  \<open>StopIteration\<close>.\<close>

fun first_index :: "string \<Rightarrow> string list \<Rightarrow> nat \<Rightarrow> nat option" where
  "first_index word [] i = None"
| "first_index word (h # hs) i =
     (if contains word (lower h) then Some i else first_index word hs (Suc i))"

text \<open>\<open>re.sub(r'[^\d.]', '', s)\<close> and \<open>float\<close> on its result, a string of digits and
  dots: it needs a digit and at most one dot.\<close>

definition amount_clean :: "string \<Rightarrow> string" where
  "amount_clean s = filter (\<lambda>c. is_digit c \<or> c = CHR ''.'') s"

definition dec_val :: "string \<Rightarrow> nat" where
  "dec_val s = foldl (\<lambda>a c. 10 * a + digit_val c) 0 s"

definition float_plain :: "string \<Rightarrow> real option" where
  "float_plain s =
     (let ip = takeWhile is_digit s; r = dropWhile is_digit s
      in case r of
           [] \<Rightarrow> if ip = [] then None else Some (of_nat (dec_val ip))
         | c # fp \<Rightarrow>
             if c = CHR ''.'' \<and> list_all is_digit fp \<and> (ip \<noteq> [] \<or> fp \<noteq> [])
             then Some (of_nat (dec_val ip) + of_nat (dec_val fp) / 10 ^ length fp)
             else None)"

text \<open>
  What a date-parsing \<open>try\<close> block does to the rest of the iteration: \<open>Skip\<close> is
  \<open>continue\<close>, \<open>Raise\<close> an exception its handler does not catch, and \<open>Go v\<close> falls through
  with the local variable \<open>date\<close> holding \<open>v\<close> (\<open>None\<close>: not bound yet).
\<close>

datatype date_step = Skip | Raise error | Go "date option"

definition date_of_parts :: "string \<Rightarrow> string \<Rightarrow> string \<Rightarrow> date_step" where
  "date_of_parts ys ms ds =
     (case py_int ys of None \<Rightarrow> Skip | Some y \<Rightarrow>
     (case py_int ms of None \<Rightarrow> Skip | Some m \<Rightarrow>
     (case py_int ds of None \<Rightarrow> Skip | Some d \<Rightarrow>
     (case py_date y m d of
        Inr v \<Rightarrow> Go (Some v)
      | Inl e \<Rightarrow> if e = ValueError \<or> e = IndexError then Skip else Raise e))))"

definition table_date :: "string \<Rightarrow> date option \<Rightarrow> date_step" where
  "table_date date_str date_var =
     (if contains ''/'' date_str then
        (let date_parts = split_on CHR ''/'' date_str
         in if length date_parts = 3
            then date_of_parts (date_parts ! 2) (date_parts ! 1) (date_parts ! 0)
            else Go date_var)
      else if contains ''-'' date_str then
        (let date_parts = split_on CHR ''-'' date_str
         in if length date_parts = 3
            then date_of_parts (date_parts ! 0) (date_parts ! 1) (date_parts ! 2)
            else Go date_var)
      else Skip)"

text \<open>The loop state of \<open>extract_from_pdf\<close>: the list \<open>invoices\<close> and the local \<open>date\<close>.\<close>

type_synonym xstate = "candidate list \<times> date option"

definition table_row :: "nat \<Rightarrow> nat \<Rightarrow> nat \<Rightarrow> nat \<Rightarrow> nat \<Rightarrow> row \<Rightarrow> xstate \<Rightarrow> error + xstate" where
  "table_row doc_type_idx doc_num_idx date_idx amount_idx currency_idx r st =
     (if r = [] \<or> \<not> list_ex truthy r then Inr st
      else if length r \<le> max doc_type_idx (max doc_num_idx (max date_idx (max amount_idx currency_idx)))
      then Inr st
      else
        let doc_type = cell_str (r ! doc_type_idx);
            doc_num = cell_str (r ! doc_num_idx);
            date_str = cell_str (r ! date_idx);
            amount_str = cell_str (r ! amount_idx);
            cur = cell_str (r ! currency_idx)
        in if doc_type = [] \<or> doc_num = [] \<or> date_str = [] \<or> amount_str = [] then Inr st
           else case table_date date_str (snd st) of
                  Skip \<Rightarrow> Inr st
                | Raise e \<Rightarrow> Inl e
                | Go dv \<Rightarrow>
                    (case float_plain (amount_clean amount_str) of
                       None \<Rightarrow> Inr (fst st, dv)
                     | Some a \<Rightarrow>
                         (case dv of
                            None \<Rightarrow> Inl UnboundLocalError
                          | Some d \<Rightarrow>
                              Inr (fst st @ [\<lparr>cand_date = d, cand_amount = a,
                                     cand_description = doc_type @ '': '' @ doc_num,
                                     cand_currency = cur, cand_doc_number = doc_num\<rparr>], dv))))"

fun table_rows :: "nat \<Rightarrow> nat \<Rightarrow> nat \<Rightarrow> nat \<Rightarrow> nat \<Rightarrow> row list \<Rightarrow> xstate \<Rightarrow> error + xstate" where
  "table_rows ti ni di ai ci [] st = Inr st"
| "table_rows ti ni di ai ci (r # rs) st =
     seq (table_row ti ni di ai ci r st) (table_rows ti ni di ai ci rs)"

definition has_word :: "string \<Rightarrow> string list \<Rightarrow> bool" where
  "has_word word headers = list_ex (\<lambda>h. contains word (lower h)) headers"

definition pdf_table :: "table \<Rightarrow> xstate \<Rightarrow> error + xstate" where
  "pdf_table t st =
     (case t of [] \<Rightarrow> Inl IndexError
      | header_row # data_rows \<Rightarrow>
          let headers = map cell_str header_row
          in if has_word ''invoice'' headers \<and> has_word ''date'' headers \<and> has_word ''amount'' headers
             then (case first_index ''type'' headers 0 of None \<Rightarrow> Inr st | Some ti \<Rightarrow>
                  (case first_index ''number'' headers 0 of None \<Rightarrow> Inr st | Some ni \<Rightarrow>
                  (case first_index ''date'' headers 0 of None \<Rightarrow> Inr st | Some di \<Rightarrow>
                  (case first_index ''amount'' headers 0 of None \<Rightarrow> Inr st | Some ai \<Rightarrow>
                  (case first_index ''currency'' headers 0 of None \<Rightarrow> Inr st | Some ci \<Rightarrow>
                     table_rows ti ni di ai ci data_rows st)))))
             else Inr st)"

fun pdf_tables :: "table list \<Rightarrow> xstate \<Rightarrow> error + xstate" where
  "pdf_tables [] st = Inr st"
| "pdf_tables (t # ts) st = seq (pdf_table t st) (pdf_tables ts)"

text \<open>The text fallback.  Its date block indexes the parts without a length check, so a
  missing part is an \<open>IndexError\<close>, which the handler turns into \<open>continue\<close>.\<close>

definition text_date :: "string \<Rightarrow> date_step" where
  "text_date date_str =
     (if contains ''/'' date_str then
        (let date_parts = split_on CHR ''/'' date_str
         in if length date_parts < 3 then Skip
            else date_of_parts (date_parts ! 2) (date_parts ! 1) (date_parts ! 0))
      else
        (let date_parts = split_on CHR ''-'' date_str
         in if length date_parts < 3 then Skip
            else date_of_parts (date_parts ! 0) (date_parts ! 1) (date_parts ! 2)))"

definition text_match :: "string \<times> string \<times> string \<Rightarrow> xstate \<Rightarrow> error + xstate" where
  "text_match m st =
     (case m of (doc_num, date_str, amount_str) \<Rightarrow>
        (case text_date date_str of
           Skip \<Rightarrow> Inr st
         | Raise e \<Rightarrow> Inl e
         | Go dv \<Rightarrow>
             (case float_plain (amount_clean amount_str) of
                None \<Rightarrow> Inr (fst st, dv)
              | Some a \<Rightarrow>
                  (case dv of
                     None \<Rightarrow> Inl UnboundLocalError
                   | Some d \<Rightarrow>
                       Inr (fst st @ [\<lparr>cand_date = d, cand_amount = a,
                              cand_description = ''Invoice: '' @ doc_num,
                              cand_currency = ''USD'', cand_doc_number = doc_num\<rparr>], dv)))))"

fun text_matches :: "(string \<times> string \<times> string) list \<Rightarrow> xstate \<Rightarrow> error + xstate" where
  "text_matches [] st = Inr st"
| "text_matches (m # ms) st = seq (text_match m st) (text_matches ms)"

fun text_patterns :: "relib \<Rightarrow> string option \<Rightarrow> text_pattern list \<Rightarrow> xstate \<Rightarrow> error + xstate" where
  "text_patterns lib txt [] st = Inr st"
| "text_patterns lib txt (p # ps) st =
     (case txt of None \<Rightarrow> Inl TypeError
      | Some t \<Rightarrow> seq (text_matches (findall lib p t) st) (text_patterns lib txt ps))"

definition pdf_page :: "relib \<Rightarrow> page \<Rightarrow> xstate \<Rightarrow> error + xstate" where
  "pdf_page lib pg st =
     seq (extract_text pg) (\<lambda>txt.
     seq (extract_tables pg) (\<lambda>tables.
     seq (pdf_tables tables st) (\<lambda>st'.
       if fst st' = [] then text_patterns lib txt [Labelled_pattern, Tabular_pattern] st'
       else Inr st')))"

fun pdf_pages :: "relib \<Rightarrow> page list \<Rightarrow> xstate \<Rightarrow> error + xstate" where
  "pdf_pages lib [] st = Inr st"
| "pdf_pages lib (pg # pgs) st = seq (pdf_page lib pg st) (pdf_pages lib pgs)"

text \<open>The \<open>try\<close> block of \<open>extract_from_pdf\<close>, and the function with its handler
  \<open>except Exception: return []\<close>, which catches every value of \<open>error\<close>.\<close>

definition extract_from_pdf_try :: "relib \<Rightarrow> document \<Rightarrow> error + candidate list" where
  "extract_from_pdf_try lib doc =
     seq doc (\<lambda>pages. seq (pdf_pages lib pages ([], None)) (\<lambda>st. Inr (fst st)))"

definition extract_from_pdf :: "relib \<Rightarrow> document \<Rightarrow> error + candidate list" where
  "extract_from_pdf lib doc =
     (case extract_from_pdf_try lib doc of Inl e \<Rightarrow> Inr [] | Inr found \<Rightarrow> Inr found)"

subsection \<open>The remittance-advice variant\<close>

text \<open>The header scan \<open>for i, header in enumerate(headers)\<close> with its \<open>elif\<close> chain;
  a later header overwrites an earlier index.\<close>

record columns =
  doc_type_col :: "nat option"
  doc_num_col :: "nat option"
  date_col :: "nat option"
  amount_col :: "nat option"
  currency_col :: "nat option"

fun scan_headers :: "string list \<Rightarrow> nat \<Rightarrow> columns \<Rightarrow> columns" where
  "scan_headers [] i cols = cols"
| "scan_headers (header # hs) i cols =
     scan_headers hs (Suc i)
       (if contains ''type'' header \<and> contains ''document'' header
        then cols\<lparr>doc_type_col := Some i\<rparr>
        else if contains ''number'' header
                \<and> (contains ''document'' header \<or> contains ''invoice'' header)
        then cols\<lparr>doc_num_col := Some i\<rparr>
        else if contains ''date'' header then cols\<lparr>date_col := Some i\<rparr>
        else if contains ''amount'' header \<and> contains ''payment'' header
        then cols\<lparr>amount_col := Some i\<rparr>
        else if contains ''currency'' header then cols\<lparr>currency_col := Some i\<rparr>
        else cols)"

definition date_formats :: "(date_format \<times> date_pattern) list" where
  "date_formats =
     [(F_dmy_slash, P_slash), (F_mdy_slash, P_slash), (F_ymd_dash, P_ymd_dash),
      (F_dmy_dash, P_dmy_dash), (F_dmy_dot, P_dmy_dot)]"

fun try_formats :: "relib \<Rightarrow> string \<Rightarrow> (date_format \<times> date_pattern) list \<Rightarrow> date option" where
  "try_formats lib date_str [] = None"
| "try_formats lib date_str ((fmt, pat) # rest) =
     (if re_match lib pat date_str
      then (case strptime lib date_str fmt of
              Some d \<Rightarrow> Some d
            | None \<Rightarrow> try_formats lib date_str rest)
      else try_formats lib date_str rest)"

text \<open>The euro and pound signs as their UTF-8 bytes.\<close>

definition euro_sign :: string where
  "euro_sign = [char_of (226 :: nat), char_of (130 :: nat), char_of (172 :: nat)]"

definition pound_sign :: string where
  "pound_sign = [char_of (194 :: nat), char_of (163 :: nat)]"

text \<open>One data row: the body of the inner \<open>try\<close>, whose handler
  \<open>except (ValueError, IndexError)\<close> prints and continues.\<close>

definition remittance_row_try ::
  "relib \<Rightarrow> nat \<Rightarrow> nat \<Rightarrow> nat \<Rightarrow> nat \<Rightarrow> nat option \<Rightarrow> row \<Rightarrow> candidate list
     \<Rightarrow> error + candidate list" where
  "remittance_row_try lib ti ni di ai ci r found =
     (let doc_type = cell_str (r ! ti);
          doc_num = cell_str (r ! ni);
          date_str = cell_str (r ! di);
          amount_str = cell_str (r ! ai)
      in seq (case ci of
                None \<Rightarrow> Inr None
              | Some c \<Rightarrow> if c < length r then Inr (Some (r ! c)) else Inl IndexError) (\<lambda>cur_cell.
         let cur = (case cur_cell of
                      Some c \<Rightarrow> if truthy c then Some (strip (the c)) else None
                    | None \<Rightarrow> None);
             currency =
               (case cur of Some c \<Rightarrow> c
                | None \<Rightarrow>
                    if contains ''USD'' amount_str \<or> contains ''$'' amount_str then ''USD''
                    else if contains ''EUR'' amount_str \<or> contains euro_sign amount_str then ''EUR''
                    else if contains ''GBP'' amount_str \<or> contains pound_sign amount_str then ''GBP''
                    else ''USD'')
         in if doc_num = [] \<or> date_str = [] \<or> amount_str = [] then Inr found
            else case try_formats lib date_str date_formats of
                   None \<Rightarrow> Inr found
                 | Some d \<Rightarrow>
                     (case float_plain (amount_clean amount_str) of
                        None \<Rightarrow> Inl ValueError
                      | Some a \<Rightarrow>
                          Inr (found @ [\<lparr>cand_date = d, cand_amount = a,
                                 cand_description =
                                   (if doc_type \<noteq> [] then doc_type @ '': '' @ doc_num
                                    else ''Invoice: '' @ doc_num),
                                 cand_currency = currency, cand_doc_number = doc_num\<rparr>]))))"

definition remittance_row ::
  "relib \<Rightarrow> nat \<Rightarrow> nat \<Rightarrow> nat \<Rightarrow> nat \<Rightarrow> nat option \<Rightarrow> row \<Rightarrow> candidate list
     \<Rightarrow> error + candidate list" where
  "remittance_row lib ti ni di ai ci r found =
     (if r = [] \<or> length r \<le> max ti (max ni (max di ai)) then Inr found
      else case remittance_row_try lib ti ni di ai ci r found of
             Inr found' \<Rightarrow> Inr found'
           | Inl e \<Rightarrow> if e = ValueError \<or> e = IndexError then Inr found else Inl e)"

fun remittance_rows ::
  "relib \<Rightarrow> nat \<Rightarrow> nat \<Rightarrow> nat \<Rightarrow> nat \<Rightarrow> nat option \<Rightarrow> row list \<Rightarrow> candidate list
     \<Rightarrow> error + candidate list" where
  "remittance_rows lib ti ni di ai ci [] found = Inr found"
| "remittance_rows lib ti ni di ai ci (r # rs) found =
     seq (remittance_row lib ti ni di ai ci r found) (remittance_rows lib ti ni di ai ci rs)"

definition join_space :: "string list \<Rightarrow> string" where
  "join_space xs = (case xs of [] \<Rightarrow> [] | x # rest \<Rightarrow> x @ concat (map (\<lambda>y. '' '' @ y) rest))"

definition remittance_table :: "relib \<Rightarrow> table \<Rightarrow> candidate list \<Rightarrow> error + candidate list" where
  "remittance_table lib t found =
     (if length t < 2 then Inr found
      else
        let headers = map (\<lambda>c. lower (cell_str c)) (hd t);
            joined = join_space headers
        in if (contains ''document'' joined \<or> contains ''invoice'' joined)
              \<and> contains ''date'' joined \<and> contains ''amount'' joined
           then
             (let cols = scan_headers headers 0
                           \<lparr>doc_type_col = None, doc_num_col = None, date_col = None,
                            amount_col = None, currency_col = None\<rparr>
              in case (doc_type_col cols, doc_num_col cols, date_col cols, amount_col cols) of
                   (Some ti, Some ni, Some di, Some ai) \<Rightarrow>
                     remittance_rows lib ti ni di ai (currency_col cols) (tl t) found
                 | _ \<Rightarrow> Inr found)
           else Inr found)"

fun remittance_tables :: "relib \<Rightarrow> table list \<Rightarrow> candidate list \<Rightarrow> error + candidate list" where
  "remittance_tables lib [] found = Inr found"
| "remittance_tables lib (t # ts) found =
     seq (remittance_table lib t found) (remittance_tables lib ts)"

definition remittance_page :: "relib \<Rightarrow> page \<Rightarrow> candidate list \<Rightarrow> error + candidate list" where
  "remittance_page lib pg found =
     seq (extract_text pg) (\<lambda>txt.
     seq (extract_tables pg) (\<lambda>tables.
       case txt of
         None \<Rightarrow> Inl AttributeError
       | Some t \<Rightarrow>
           if contains ''remittance advice'' (lower t) then remittance_tables lib tables found
           else Inr found))"

fun remittance_pages :: "relib \<Rightarrow> page list \<Rightarrow> candidate list \<Rightarrow> error + candidate list" where
  "remittance_pages lib [] found = Inr found"
| "remittance_pages lib (pg # pgs) found =
     seq (remittance_page lib pg found) (remittance_pages lib pgs)"

definition extract_from_remittance_advice_try :: "relib \<Rightarrow> document \<Rightarrow> error + candidate list" where
  "extract_from_remittance_advice_try lib doc =
     seq doc (\<lambda>pages. remittance_pages lib pages [])"

definition extract_from_remittance_advice :: "relib \<Rightarrow> document \<Rightarrow> error + candidate list" where
  "extract_from_remittance_advice lib doc =
     (case extract_from_remittance_advice_try lib doc of
        Inl e \<Rightarrow> Inr [] | Inr found \<Rightarrow> Inr found)"

section \<open>Auxiliary facts\<close>

subsection \<open>Dates and quarters\<close>

lemma py_date_valid:
  "MINYEAR \<le> y \<Longrightarrow> y \<le> MAXYEAR \<Longrightarrow> 1 \<le> m \<Longrightarrow> m \<le> 12 \<Longrightarrow> 1 \<le> d
     \<Longrightarrow> d \<le> days_in_month y m
     \<Longrightarrow> py_date y m d = Inr \<lparr>year = y, month = m, day = d\<rparr>"
  by (simp add: py_date_def valid_date_def c_int_def MINYEAR_def MAXYEAR_def days_in_month_def
           split: if_splits)

lemma valid_date_py_date:
  "valid_date d \<Longrightarrow> py_date (year d) (month d) (day d) = Inr d"
  by (simp add: py_date_def valid_date_def c_int_def MINYEAR_def MAXYEAR_def days_in_month_def
           split: if_splits)

lemma valid_date_nonneg: "valid_date d \<Longrightarrow> 0 \<le> year d \<and> 0 \<le> month d \<and> 0 \<le> day d"
  by (simp add: valid_date_def MINYEAR_def)

lemma quarter_cases: "1 \<le> (q::int) \<Longrightarrow> q \<le> 4 \<Longrightarrow> q = 1 \<or> q = 2 \<or> q = 3 \<or> q = 4"
  by arith

lemma bounds_each_quarter:
  assumes "MINYEAR \<le> yr" "yr \<le> MAXYEAR"
  shows "get_quarter_bounds yr 1 =
           Inr (\<lparr>year = yr, month = 1, day = 1\<rparr>, \<lparr>year = yr, month = 3, day = 31\<rparr>)"
    and "get_quarter_bounds yr 2 =
           Inr (\<lparr>year = yr, month = 4, day = 1\<rparr>, \<lparr>year = yr, month = 6, day = 30\<rparr>)"
    and "get_quarter_bounds yr 3 =
           Inr (\<lparr>year = yr, month = 7, day = 1\<rparr>, \<lparr>year = yr, month = 9, day = 30\<rparr>)"
    and "get_quarter_bounds yr 4 =
           Inr (\<lparr>year = yr, month = 10, day = 1\<rparr>, \<lparr>year = yr, month = 12, day = 31\<rparr>)"
  using assms
  by (simp_all add: get_quarter_bounds_def py_date_valid monthrange_days_def days_in_month_def)

lemma bounds_in_range:
  assumes "MINYEAR \<le> yr" "yr \<le> MAXYEAR" "1 \<le> q" "q \<le> 4"
  shows "get_quarter_bounds yr q =
           Inr (\<lparr>year = yr, month = 3 * q - 2, day = 1\<rparr>,
                \<lparr>year = yr, month = 3 * q, day = (if q = 1 \<or> q = 4 then 31 else 30)\<rparr>)"
  using quarter_cases[OF assms(3,4)] bounds_each_quarter[OF assms(1,2)] by auto

lemma year_ends:
  assumes "MINYEAR \<le> yr" "yr \<le> MAXYEAR"
  shows "py_date yr 1 1 = Inr \<lparr>year = yr, month = 1, day = 1\<rparr>"
    and "py_date yr 12 31 = Inr \<lparr>year = yr, month = 12, day = 31\<rparr>"
  using assms by (simp_all add: py_date_valid days_in_month_def)

text \<open>Outside the years of the calendar the date constructor raises before any bound
  is computed.\<close>

lemma year_outside_calendar:
  assumes "yr < MINYEAR \<or> MAXYEAR < yr" and "c_int yr" and "1 \<le> q" and "q \<le> 4"
  shows "get_quarter_bounds yr q = Inl ValueError"
    and "get_yearly_earnings self yr = Inl ValueError"
proof -
  have "py_date yr m 1 = Inl ValueError" if "c_int m" for m
    using assms(1,2) that by (auto simp: py_date_def valid_date_def c_int_def)
  moreover have "c_int ((q - 1) * 3 + 1)" using assms(3,4) by (simp add: c_int_def)
  ultimately show "get_quarter_bounds yr q = Inl ValueError"
    using assms(3,4) by (simp add: get_quarter_bounds_def)
  have "py_date yr 1 1 = Inl ValueError"
    using assms(1,2) by (auto simp: py_date_def valid_date_def c_int_def)
  then show "get_yearly_earnings self yr = Inl ValueError"
    by (simp add: get_yearly_earnings_def)
qed

lemma sum_between_filter:
  "sum_between s e xs t =
     t + sum_list (map amount (filter (\<lambda>iv. date_le s (date iv) \<and> date_le (date iv) e) xs))"
  by (induction xs arbitrary: t) simp_all

subsection \<open>Decimal strings\<close>

lemma below_ten:
  "k < 10 \<Longrightarrow>
     k = 0 \<or> k = 1 \<or> k = 2 \<or> k = 3 \<or> k = 4 \<or> k = 5 \<or> k = 6 \<or> k = 7 \<or> k = 8 \<or> k = (9::nat)"
  by arith

lemma digit_chr_props: "is_digit (digit_chr n) \<and> digit_val (digit_chr n) = n mod 10"
proof -
  have "n mod 10 < 10" by simp
  from below_ten[OF this] show ?thesis
    by (elim disjE) (simp_all add: is_digit_def digit_chr_def digit_val_def)
qed

lemma is_digit_not_special:
  "is_digit c \<Longrightarrow> \<not> is_space c \<and> c \<noteq> CHR ''-'' \<and> c \<noteq> CHR ''+'' \<and> c \<noteq> CHR ''_''"
  by (auto simp: is_digit_def is_space_def)

lemma str_nat_digits: "list_all is_digit (str_nat n) \<and> str_nat n \<noteq> []"
proof (induction n rule: str_nat.induct)
  case (1 n)
  show ?case
  proof (cases "n < 10")
    case True
    then show ?thesis by (simp add: str_nat.simps[of n] digit_chr_props)
  next
    case False
    with 1 show ?thesis by (simp add: str_nat.simps[of n] digit_chr_props)
  qed
qed

lemma digits_val_snoc:
  "list_all is_digit s \<Longrightarrow> is_digit c \<Longrightarrow>
     digits_val (s @ [c]) acc = map_option (\<lambda>v. 10 * v + digit_val c) (digits_val s acc)"
  by (induction s arbitrary: acc) simp_all

lemma digits_val_str_nat: "digits_val (str_nat n) 0 = Some n"
proof (induction n rule: str_nat.induct)
  case (1 n)
  show ?case
  proof (cases "n < 10")
    case True
    then show ?thesis by (simp add: str_nat.simps[of n] digit_chr_props)
  next
    case False
    with 1 have ih: "digits_val (str_nat (n div 10)) 0 = Some (n div 10)" by simp
    have "str_nat n = str_nat (n div 10) @ [digit_chr n]"
      using False by (simp add: str_nat.simps[of n])
    then show ?thesis
      by (simp add: digits_val_snoc str_nat_digits digit_chr_props ih)
  qed
qed

lemma digits_val_zeros: "digits_val (replicate k CHR ''0'' @ s) 0 = digits_val s 0"
  by (induction k) (simp_all add: is_digit_def digit_val_def)

lemma zfill_digits: "list_all is_digit (zfill w (str_nat n)) \<and> zfill w (str_nat n) \<noteq> []"
proof -
  have "is_digit CHR ''0''" by (simp add: is_digit_def)
  then have "list_all is_digit (replicate (w - length (str_nat n)) CHR ''0'')"
    by (simp add: list_all_iff)
  then show ?thesis using str_nat_digits[of n] by (simp add: zfill_def)
qed

lemma strip_unchanged:
  assumes "s \<noteq> []" "\<not> is_space (hd s)" "\<not> is_space (last s)"
  shows "strip s = s"
proof -
  have "dropWhile is_space s = s" using assms by (cases s) simp_all
  moreover have "dropWhile is_space (rev s) = rev s"
    using assms by (cases "rev s") (simp_all add: hd_rev)
  ultimately show ?thesis by (simp add: strip_def)
qed

lemma py_int_zfill: "py_int (zfill w (str_nat n)) = Some (int n)"
proof -
  let ?s = "zfill w (str_nat n)"
  have d: "list_all is_digit ?s" and ne: "?s \<noteq> []" using zfill_digits by blast+
  from ne obtain c r where cr: "?s = c # r" by (cases ?s) auto
  have hd: "is_digit (hd ?s)" and lst: "is_digit (last ?s)"
    using d ne by (simp_all add: list_all_iff)
  have st: "strip ?s = ?s"
    using strip_unchanged[OF ne] hd lst is_digit_not_special by blast
  have c: "is_digit c" using hd cr by simp
  have "parse_digits ?s = Some n"
    using c cr digits_val_zeros[of "w - length (str_nat n)" "str_nat n"] digits_val_str_nat[of n]
    by (simp add: parse_digits_def zfill_def)
  then show ?thesis
    using c cr st is_digit_not_special[OF c] by (simp add: py_int_def)
qed

lemma split_on_absent: "sep \<notin> set a \<Longrightarrow> split_on sep a = [a]"
  by (induction a) auto

lemma split_on_first: "sep \<notin> set a \<Longrightarrow> split_on sep (a @ sep # rest) = a # split_on sep rest"
  by (induction a) auto

lemma zfill_no_dash: "CHR ''-'' \<notin> set (zfill w (str_nat n))"
proof
  assume "CHR ''-'' \<in> set (zfill w (str_nat n))"
  then have "is_digit CHR ''-''" using zfill_digits[of w n] by (auto simp: list_all_iff)
  then show False by (simp add: is_digit_def)
qed

lemma split_isoformat:
  "split_on CHR ''-'' (isoformat d) =
     [zfill 4 (str_nat (nat (year d))), zfill 2 (str_nat (nat (month d))),
      zfill 2 (str_nat (nat (day d)))]"
  by (simp add: isoformat_def split_on_first split_on_absent zfill_no_dash)

lemma zfill4_zero: "zfill 4 (str_nat 0) = ''0000''"
  by (simp add: zfill_def str_nat.simps[of 0] digit_chr_def numeral_3_eq_3)

lemma zfill4_one: "zfill 4 (str_nat (Suc 0)) = ''0001''"
  by (simp add: zfill_def str_nat.simps[of "Suc 0"] digit_chr_def numeral_3_eq_3)

subsection \<open>Reading back what was saved\<close>

lemma load_invoice_json:
  assumes "valid_date (date iv)"
  shows "load_invoice fl (invoice_json iv) = Inr iv"
proof -
  have ints: "ints_of (split_on CHR ''-'' (isoformat (date iv))) =
                Inr [year (date iv), month (date iv), day (date iv)]"
    using valid_date_nonneg[OF assms]
    by (simp add: split_isoformat ints_of_def py_int_zfill)
  show ?thesis
    by (simp add: load_invoice_def invoice_json_def seq_def subscript_def split_dash_def ints
          valid_date_py_date[OF assms] py_float_def)
qed

lemma load_loop_json:
  "\<forall>iv \<in> set xs. valid_date (date iv) \<Longrightarrow>
     load_loop fl (map invoice_json xs) loaded = Inr (loaded @ xs)"
  by (induction xs arbitrary: loaded) (simp_all add: load_invoice_json seq_def)

section \<open>The claims\<close>

subsection \<open>C1: a quarter outside 1..4\<close>

text \<open>
  Claim C1 says that for a quarter outside 1..4 the quarter-dependent operations hand a
  structured failure result (success flag and message) back to the caller and that no
  exception leaves the component.  The code raises instead: at quarter 5 of 2024 each of
  the operations ends in \<open>Inl ValueError\<close>, the exception reaching the caller.
\<close>

theorem quarter_out_of_range_not_returned:
  "get_quarter_bounds 2024 5 = Inl ValueError
   \<and> get_quarterly_earnings
        \<lparr>data_file = ''data/invoices.json'', fed_tax_rate = JFloat 0.2,
         state_tax_rate = JFloat 0.05, state_code = JStr [], invoices = []\<rparr> 2024 5
       = Inl ValueError"
  by (simp add: get_quarter_bounds_def get_quarterly_earnings_def)

text \<open>
  Claim C1, amended: for every year and every quarter outside 1..4, \<open>get_quarter_bounds\<close>
  raises \<open>ValueError\<close>, and \<open>get_quarterly_earnings\<close>, both quarterly taxes and
  \<open>generate_quarterly_report\<close> for that quarter let it pass to their caller; none of
  them returns a value.
\<close>

theorem quarter_out_of_range_raises:
  assumes "quarter < 1 \<or> quarter > 4"
  shows "get_quarter_bounds yr quarter = Inl ValueError
       \<and> get_quarterly_earnings self yr quarter = Inl ValueError
       \<and> calculate_quarterly_federal_tax self yr quarter = Inl ValueError
       \<and> calculate_quarterly_state_tax self yr quarter = Inl ValueError
       \<and> generate_quarterly_report self yr (Some quarter) = Inl ValueError"
  using assms
  by (simp add: get_quarter_bounds_def get_quarterly_earnings_def
        calculate_quarterly_federal_tax_def calculate_quarterly_state_tax_def
        generate_quarterly_report_def quarter_entry_def seq_def)

theorem quarter_out_of_range_raises_witness:
  "get_quarter_bounds 2024 0 = Inl ValueError
   \<and> generate_quarterly_report
        \<lparr>data_file = ''data/invoices.json'', fed_tax_rate = JFloat 0.2,
         state_tax_rate = JFloat 0.05, state_code = JStr [], invoices = []\<rparr> 2024 (Some 0)
       = Inl ValueError"
  using quarter_out_of_range_raises[of 0 2024
          "\<lparr>data_file = ''data/invoices.json'', fed_tax_rate = JFloat 0.2,
            state_tax_rate = JFloat 0.05, state_code = JStr [], invoices = []\<rparr>"]
  by simp

subsection \<open>C4: quarter bounds\<close>

text \<open>
  Claim C4: for every year that \<open>datetime.date\<close> represents (\<open>MINYEAR\<close> to \<open>MAXYEAR\<close>) and
  every quarter in 1..4, \<open>get_quarter_bounds\<close> returns the first day of the quarter's
  first month and the last calendar day of its last month: 31 March, 30 June,
  30 September, 31 December, in leap years and in common years alike.
\<close>

theorem quarter_bounds_calendar:
  assumes "MINYEAR \<le> yr" and "yr \<le> MAXYEAR" and "1 \<le> q" and "q \<le> 4"
  shows "get_quarter_bounds yr q =
           Inr (\<lparr>year = yr, month = 3 * q - 2, day = 1\<rparr>,
                \<lparr>year = yr, month = 3 * q, day = days_in_month yr (3 * q)\<rparr>)
         \<and> days_in_month yr (3 * q) = (if q = 1 \<or> q = 4 then 31 else 30)"
  using quarter_cases[OF assms(3,4)] bounds_each_quarter[OF assms(1,2)]
  by (auto simp: days_in_month_def)

theorem quarter_bounds_calendar_witness:
  "get_quarter_bounds 2024 1 =
     Inr (\<lparr>year = 2024, month = 1, day = 1\<rparr>, \<lparr>year = 2024, month = 3, day = 31\<rparr>)
   \<and> get_quarter_bounds 2023 1 =
     Inr (\<lparr>year = 2023, month = 1, day = 1\<rparr>, \<lparr>year = 2023, month = 3, day = 31\<rparr>)
   \<and> get_quarter_bounds 2024 2 =
     Inr (\<lparr>year = 2024, month = 4, day = 1\<rparr>, \<lparr>year = 2024, month = 6, day = 30\<rparr>)"
  using quarter_bounds_calendar[of 2024 1] quarter_bounds_calendar[of 2023 1]
    quarter_bounds_calendar[of 2024 2]
  by (simp add: MINYEAR_def MAXYEAR_def)

subsection \<open>C5: earnings\<close>

text \<open>
  Claim C5: for every invoice collection, every year from \<open>MINYEAR\<close> to \<open>MAXYEAR\<close> and
  every quarter in 1..4, \<open>get_quarterly_earnings\<close> returns the sum of the amounts of
  exactly the invoices with \<open>start <= date <= end\<close> for the quarter's bounds, both ends
  included, and \<open>get_yearly_earnings\<close> the sum over the invoices from 1 January to
  31 December of the year.
\<close>

theorem earnings_closed_interval_sum:
  assumes "MINYEAR \<le> yr" and "yr \<le> MAXYEAR" and "1 \<le> q" and "q \<le> 4"
  shows "(\<exists>s e. get_quarter_bounds yr q = Inr (s, e)
            \<and> get_quarterly_earnings self yr q =
                Inr (sum_list (map amount
                  (filter (\<lambda>iv. date_le s (date iv) \<and> date_le (date iv) e) (invoices self)))))
         \<and> get_yearly_earnings self yr =
             Inr (sum_list (map amount
               (filter (\<lambda>iv. date_le \<lparr>year = yr, month = 1, day = 1\<rparr> (date iv)
                            \<and> date_le (date iv) \<lparr>year = yr, month = 12, day = 31\<rparr>)
                  (invoices self))))"
proof -
  have "get_quarter_bounds yr q =
          Inr (\<lparr>year = yr, month = 3 * q - 2, day = 1\<rparr>,
               \<lparr>year = yr, month = 3 * q, day = (if q = 1 \<or> q = 4 then 31 else 30)\<rparr>)"
    by (rule bounds_in_range[OF assms])
  then have quarterly: "\<exists>s e. get_quarter_bounds yr q = Inr (s, e)
            \<and> get_quarterly_earnings self yr q =
                Inr (sum_list (map amount
                  (filter (\<lambda>iv. date_le s (date iv) \<and> date_le (date iv) e) (invoices self))))"
    by (simp add: get_quarterly_earnings_def sum_between_filter)
  have yearly: "get_yearly_earnings self yr =
             Inr (sum_list (map amount
               (filter (\<lambda>iv. date_le \<lparr>year = yr, month = 1, day = 1\<rparr> (date iv)
                            \<and> date_le (date iv) \<lparr>year = yr, month = 12, day = 31\<rparr>)
                  (invoices self))))"
    by (simp add: get_yearly_earnings_def sum_between_filter year_ends[OF assms(1,2)])
  from quarterly yearly show ?thesis by blast
qed

text \<open>Invoices dated 1 January, 31 March and 1 April 2024: the first quarter counts the
  first two, the year all three.\<close>

theorem earnings_closed_interval_sum_witness:
  "get_quarterly_earnings
     \<lparr>data_file = ''data/invoices.json'', fed_tax_rate = JFloat 0.2,
      state_tax_rate = JFloat 0.05, state_code = JStr [],
      invoices =
        [\<lparr>date = \<lparr>year = 2024, month = 1, day = 1\<rparr>, amount = 100,
          description = JStr ''a'', invoice_id = JStr ''1''\<rparr>,
         \<lparr>date = \<lparr>year = 2024, month = 3, day = 31\<rparr>, amount = 20,
          description = JStr ''b'', invoice_id = JStr ''2''\<rparr>,
         \<lparr>date = \<lparr>year = 2024, month = 4, day = 1\<rparr>, amount = 3,
          description = JStr ''c'', invoice_id = JStr ''3''\<rparr>]\<rparr> 2024 1 = Inr 120
   \<and> get_yearly_earnings
     \<lparr>data_file = ''data/invoices.json'', fed_tax_rate = JFloat 0.2,
      state_tax_rate = JFloat 0.05, state_code = JStr [],
      invoices =
        [\<lparr>date = \<lparr>year = 2024, month = 1, day = 1\<rparr>, amount = 100,
          description = JStr ''a'', invoice_id = JStr ''1''\<rparr>,
         \<lparr>date = \<lparr>year = 2024, month = 3, day = 31\<rparr>, amount = 20,
          description = JStr ''b'', invoice_id = JStr ''2''\<rparr>,
         \<lparr>date = \<lparr>year = 2024, month = 4, day = 1\<rparr>, amount = 3,
          description = JStr ''c'', invoice_id = JStr ''3''\<rparr>]\<rparr> 2024 = Inr 123"
  using earnings_closed_interval_sum[of 2024 1
     "\<lparr>data_file = ''data/invoices.json'', fed_tax_rate = JFloat 0.2,
      state_tax_rate = JFloat 0.05, state_code = JStr [],
      invoices =
        [\<lparr>date = \<lparr>year = 2024, month = 1, day = 1\<rparr>, amount = 100,
          description = JStr ''a'', invoice_id = JStr ''1''\<rparr>,
         \<lparr>date = \<lparr>year = 2024, month = 3, day = 31\<rparr>, amount = 20,
          description = JStr ''b'', invoice_id = JStr ''2''\<rparr>,
         \<lparr>date = \<lparr>year = 2024, month = 4, day = 1\<rparr>, amount = 3,
          description = JStr ''c'', invoice_id = JStr ''3''\<rparr>]\<rparr>"]
    bounds_each_quarter(1)[of 2024]
  by (simp add: MINYEAR_def MAXYEAR_def date_le_def)

subsection \<open>C6: SEP contribution\<close>

text \<open>
  Claim C6: for every year from \<open>MINYEAR\<close> to \<open>MAXYEAR\<close>, \<open>calculate_sep_401k_limit\<close>
  returns the yearly earnings, the potential contribution \<open>earnings * 0.20\<close>, the
  actual contribution \<open>min(potential, 69000)\<close>, the limit 69000, and the percentage, which
  is 0 when the earnings are 0 (no division is made then, and the actual contribution is
  0) and \<open>actual / earnings * 100\<close> otherwise.
\<close>

theorem sep_contribution_fields:
  assumes "MINYEAR \<le> yr" and "yr \<le> MAXYEAR"
  shows "\<exists>r. calculate_sep_401k_limit self yr = Inr r
           \<and> get_yearly_earnings self yr = Inr (yearly_earnings r)
           \<and> potential_contribution r = yearly_earnings r * 0.20
           \<and> actual_contribution r = min (potential_contribution r) 69000
           \<and> max_contribution_limit r = 69000
           \<and> contribution_percent r =
               (if yearly_earnings r = 0 then 0
                else actual_contribution r / yearly_earnings r * 100)
           \<and> (yearly_earnings r = 0 \<longrightarrow> actual_contribution r = 0)"
proof -
  obtain v where v: "get_yearly_earnings self yr = Inr v"
    by (simp add: get_yearly_earnings_def year_ends[OF assms])
  show ?thesis
    by (simp add: calculate_sep_401k_limit_def v truediv_def Let_def)
qed

text \<open>No invoice in 2024: earnings 0, nothing to contribute, percentage 0.\<close>

theorem sep_contribution_fields_witness:
  "calculate_sep_401k_limit
     \<lparr>data_file = ''data/invoices.json'', fed_tax_rate = JFloat 0.2,
      state_tax_rate = JFloat 0.05, state_code = JStr [], invoices = []\<rparr> 2024
   = Inr \<lparr>yearly_earnings = 0, potential_contribution = 0, actual_contribution = 0,
          max_contribution_limit = 69000, contribution_percent = 0\<rparr>"
  using sep_contribution_fields[of 2024
     "\<lparr>data_file = ''data/invoices.json'', fed_tax_rate = JFloat 0.2,
      state_tax_rate = JFloat 0.05, state_code = JStr [], invoices = []\<rparr>"]
  by (auto simp: MINYEAR_def MAXYEAR_def get_yearly_earnings_def py_date_valid days_in_month_def)

subsection \<open>C7: tax rates\<close>

text \<open>
  Claim C7: \<open>set_tax_rates\<close> stores both rates and the state code together when both
  rates lie in [0, 1]; otherwise it reports failure and leaves the calculator, and the
  file, exactly as they were.
\<close>

theorem set_tax_rates_atomic:
  "(0 \<le> fed \<and> fed \<le> 1 \<and> 0 \<le> st \<and> st \<le> 1 \<longrightarrow>
      (\<exists>fs' msg. set_tax_rates self fs fed st code =
          (self\<lparr>fed_tax_rate := JFloat fed, state_tax_rate := JFloat st, state_code := JStr code\<rparr>,
           fs', True, msg)))
   \<and> (\<not> (0 \<le> fed \<and> fed \<le> 1 \<and> 0 \<le> st \<and> st \<le> 1) \<longrightarrow>
      set_tax_rates self fs fed st code = (self, fs, False, TaxRatesOutOfRange))"
  by (simp add: set_tax_rates_def Let_def)

theorem set_tax_rates_atomic_witness:
  "set_tax_rates
     \<lparr>data_file = ''data/invoices.json'', fed_tax_rate = JFloat 0.2,
      state_tax_rate = JFloat 0.05, state_code = JStr ''NY'', invoices = []\<rparr>
     \<lparr>contents = (\<lambda>p. None), writable = (\<lambda>p. True)\<rparr> 1.5 0.05 ''CA''
   = (\<lparr>data_file = ''data/invoices.json'', fed_tax_rate = JFloat 0.2,
       state_tax_rate = JFloat 0.05, state_code = JStr ''NY'', invoices = []\<rparr>,
      \<lparr>contents = (\<lambda>p. None), writable = (\<lambda>p. True)\<rparr>, False, TaxRatesOutOfRange)
   \<and> (\<exists>fs' msg. set_tax_rates
     \<lparr>data_file = ''data/invoices.json'', fed_tax_rate = JFloat 0.2,
      state_tax_rate = JFloat 0.05, state_code = JStr ''NY'', invoices = []\<rparr>
     \<lparr>contents = (\<lambda>p. None), writable = (\<lambda>p. True)\<rparr> 0.3 0.05 ''CA''
   = (\<lparr>data_file = ''data/invoices.json'', fed_tax_rate = JFloat 0.3,
       state_tax_rate = JFloat 0.05, state_code = JStr ''CA'', invoices = []\<rparr>,
      fs', True, msg))"
  using set_tax_rates_atomic[of "1.5" "0.05"
     "\<lparr>data_file = ''data/invoices.json'', fed_tax_rate = JFloat 0.2,
      state_tax_rate = JFloat 0.05, state_code = JStr ''NY'', invoices = []\<rparr>"
     "\<lparr>contents = (\<lambda>p. None), writable = (\<lambda>p. True)\<rparr>" "''CA''"]
    set_tax_rates_atomic[of "0.3" "0.05"
     "\<lparr>data_file = ''data/invoices.json'', fed_tax_rate = JFloat 0.2,
      state_tax_rate = JFloat 0.05, state_code = JStr ''NY'', invoices = []\<rparr>"
     "\<lparr>contents = (\<lambda>p. None), writable = (\<lambda>p. True)\<rparr>" "''CA''"]
  by simp

subsection \<open>C3: saving and loading again\<close>

text \<open>
  Claim C3: whatever the calculator holds (any invoices, whose dates are dates of the
  calendar, and any configuration values), once \<open>save_invoices\<close> has written the
  backing file, a fresh calculator constructed on the same file, with whatever defaults,
  holds the same invoices in the same order and the same two rates and state code.
\<close>

theorem save_load_round_trip:
  assumes "writable fs (data_file self)"
    and "\<forall>iv \<in> set (invoices self). valid_date (date iv)"
  shows "\<exists>fresh. calculator_init fl (save_invoices self fs) dir (Some (data_file self)) fed st code
                    = Inr fresh
           \<and> invoices fresh = invoices self
           \<and> fed_tax_rate fresh = fed_tax_rate self
           \<and> state_tax_rate fresh = state_tax_rate self
           \<and> state_code fresh = state_code self"
  using assms
  by (simp add: calculator_init_def load_invoices_def save_invoices_def save_data_def
        load_body_def dict_get_def py_iter_def seq_def load_loop_json)

theorem save_load_round_trip_witness:
  "calculator_init (\<lambda>s. None)
     (save_invoices
        \<lparr>data_file = ''data/invoices.json'', fed_tax_rate = JFloat 0.3,
         state_tax_rate = JFloat 0.07, state_code = JStr ''CA'',
         invoices = [\<lparr>date = \<lparr>year = 2024, month = 2, day = 29\<rparr>, amount = 1234.56,
                      description = JStr ''consulting'', invoice_id = JStr ''INV-20240229-0000''\<rparr>]\<rparr>
        \<lparr>contents = (\<lambda>p. None), writable = (\<lambda>p. True)\<rparr>)
     ''data'' (Some ''data/invoices.json'') 0.2 0.05 []
   = Inr \<lparr>data_file = ''data/invoices.json'', fed_tax_rate = JFloat 0.3,
         state_tax_rate = JFloat 0.07, state_code = JStr ''CA'',
         invoices = [\<lparr>date = \<lparr>year = 2024, month = 2, day = 29\<rparr>, amount = 1234.56,
                      description = JStr ''consulting'', invoice_id = JStr ''INV-20240229-0000''\<rparr>]\<rparr>"
proof -
  let ?c = "\<lparr>data_file = ''data/invoices.json'', fed_tax_rate = JFloat 0.3,
         state_tax_rate = JFloat 0.07, state_code = JStr ''CA'',
         invoices = [\<lparr>date = \<lparr>year = 2024, month = 2, day = 29\<rparr>, amount = 1234.56,
                      description = JStr ''consulting'', invoice_id = JStr ''INV-20240229-0000''\<rparr>]\<rparr>"
  let ?fs = "\<lparr>contents = (\<lambda>p::string. None :: file_content option), writable = (\<lambda>p. True)\<rparr>"
  have w: "writable ?fs (data_file ?c)" by simp
  have v: "\<forall>iv \<in> set (invoices ?c). valid_date (date iv)"
    by (simp add: valid_date_def MINYEAR_def MAXYEAR_def days_in_month_def is_leap_def)
  obtain fresh where f: "calculator_init (\<lambda>s. None) (save_invoices ?c ?fs) ''data''
        (Some (data_file ?c)) 0.2 0.05 [] = Inr fresh"
    and i: "invoices fresh = invoices ?c" and r1: "fed_tax_rate fresh = fed_tax_rate ?c"
    and r2: "state_tax_rate fresh = state_tax_rate ?c" and sc: "state_code fresh = state_code ?c"
    using save_load_round_trip[OF w v, where fl = "\<lambda>s. None" and dir = "''data''"
        and fed = "0.2" and st = "0.05" and code = "[]"] by blast
  have "data_file fresh = ''data/invoices.json''"
    using f
    by (auto simp: calculator_init_def load_invoices_def save_invoices_def load_body_def seq_def
          load_caught_def split: sum.splits if_splits)
  with i r1 r2 sc have "fresh = ?c" by (cases fresh) simp
  with f show ?thesis by simp
qed

subsection \<open>C10: generated identifiers after a deletion\<close>

text \<open>
  Claim C10: generated identifiers are not unique across deletions.  From an empty
  store, add two invoices on the same date without identifiers, delete the first one
  (the deletion succeeds), and add a third on that date: the store then holds two
  invoices, both with the identifier that ends in 0001.
\<close>

theorem auto_ids_collide_after_delete:
  assumes "invoices self = []"
  shows "(case add_invoice self fs d a1 x1 None of (s1, f1, r1) \<Rightarrow>
          case add_invoice s1 f1 d a2 x2 None of (s2, f2, r2) \<Rightarrow>
          case delete_invoice s2 f2 (''INV-'' @ strftime_Ymd d @ ''-0000'') of (s3, f3, r3) \<Rightarrow>
          case add_invoice s3 f3 d a3 x3 None of (s4, f4, r4) \<Rightarrow>
            r1 = (True, InvoiceAdded (''INV-'' @ strftime_Ymd d @ ''-0000''))
            \<and> fst r3
            \<and> map invoice_id (invoices s4) =
                [JStr (''INV-'' @ strftime_Ymd d @ ''-0001''),
                 JStr (''INV-'' @ strftime_Ymd d @ ''-0001'')])"
  using assms
  by (simp add: add_invoice_def delete_invoice_def Let_def zfill4_zero zfill4_one)

theorem auto_ids_collide_after_delete_witness:
  "(case add_invoice \<lparr>data_file = ''data/invoices.json'', fed_tax_rate = JFloat 0.2,
            state_tax_rate = JFloat 0.05, state_code = JStr [], invoices = []\<rparr>
          \<lparr>contents = (\<lambda>p. None), writable = (\<lambda>p. True)\<rparr>
          \<lparr>year = 2024, month = 1, day = 15\<rparr> 100 ''first'' None of (s1, f1, r1) \<Rightarrow>
    case add_invoice s1 f1 \<lparr>year = 2024, month = 1, day = 15\<rparr> 200 ''second'' None of
      (s2, f2, r2) \<Rightarrow>
    case delete_invoice s2 f2 ''INV-20240115-0000'' of (s3, f3, r3) \<Rightarrow>
    case add_invoice s3 f3 \<lparr>year = 2024, month = 1, day = 15\<rparr> 300 ''third'' None of
      (s4, f4, r4) \<Rightarrow>
      map invoice_id (invoices s4) = [JStr ''INV-20240115-0001'', JStr ''INV-20240115-0001''])"
proof -
  have ymd: "strftime_Ymd \<lparr>year = 2024, month = 1, day = 15\<rparr> = ''20240115''"
    by code_simp
  show ?thesis
    using auto_ids_collide_after_delete[where
        self = "\<lparr>data_file = ''data/invoices.json'', fed_tax_rate = JFloat 0.2,
            state_tax_rate = JFloat 0.05, state_code = JStr [], invoices = []\<rparr>"
        and fs = "\<lparr>contents = (\<lambda>p. None), writable = (\<lambda>p. True)\<rparr>"
        and d = "\<lparr>year = 2024, month = 1, day = 15\<rparr>"
        and ?a1.0 = 100 and ?x1.0 = "''first''" and ?a2.0 = 200 and ?x2.0 = "''second''"
        and ?a3.0 = 300 and ?x3.0 = "''third''"]
    by (simp add: ymd split: prod.splits)
qed

subsection \<open>C9: the extractor's boundary\<close>

lemma pdf_page_raises:
  "extract_text pg = Inl e \<or> extract_tables pg = Inl e \<Longrightarrow> \<exists>e'. pdf_page lib pg st = Inl e'"
  by (cases "extract_text pg") (auto simp: pdf_page_def seq_def)

lemma pdf_pages_raises:
  "pg \<in> set pages \<Longrightarrow> extract_text pg = Inl e \<or> extract_tables pg = Inl e
     \<Longrightarrow> \<exists>e'. pdf_pages lib pages st = Inl e'"
proof (induction pages arbitrary: st)
  case Nil
  then show ?case by simp
next
  case (Cons p ps)
  show ?case
  proof (cases "pdf_page lib p st")
    case (Inl err)
    then show ?thesis by (simp add: seq_def)
  next
    case (Inr st')
    with pdf_page_raises[of p e lib st] Cons.prems have "pg \<in> set ps" by auto
    from Cons.IH[OF this Cons.prems(2)] Inr show ?thesis by (simp add: seq_def)
  qed
qed

lemma remittance_page_raises:
  "extract_text pg = Inl e \<or> extract_tables pg = Inl e
     \<Longrightarrow> \<exists>e'. remittance_page lib pg found = Inl e'"
  by (cases "extract_text pg") (auto simp: remittance_page_def seq_def)

lemma remittance_pages_raises:
  "pg \<in> set pages \<Longrightarrow> extract_text pg = Inl e \<or> extract_tables pg = Inl e
     \<Longrightarrow> \<exists>e'. remittance_pages lib pages found = Inl e'"
proof (induction pages arbitrary: found)
  case Nil
  then show ?case by simp
next
  case (Cons p ps)
  show ?case
  proof (cases "remittance_page lib p found")
    case (Inl err)
    then show ?thesis by (simp add: seq_def)
  next
    case (Inr found')
    with remittance_page_raises[of p e lib found] Cons.prems have "pg \<in> set ps" by auto
    from Cons.IH[OF this Cons.prems(2)] Inr show ?thesis by (simp add: seq_def)
  qed
qed

text \<open>
  Claim C9: for every document and every behaviour of the library, \<open>extract_from_pdf\<close>
  and \<open>extract_from_remittance_advice\<close> return a list and raise nothing.  When the body
  raises, the list is empty; in particular when the document cannot be opened, and when
  reading the text or the tables of any one page fails, whatever the pages before it
  held.
\<close>

theorem extractor_never_raises:
  "(\<exists>found. extract_from_pdf lib doc = Inr found)
   \<and> (\<exists>found. extract_from_remittance_advice lib doc = Inr found)
   \<and> ((\<exists>e. extract_from_pdf_try lib doc = Inl e) \<longrightarrow> extract_from_pdf lib doc = Inr [])
   \<and> ((\<exists>e. extract_from_remittance_advice_try lib doc = Inl e)
        \<longrightarrow> extract_from_remittance_advice lib doc = Inr [])
   \<and> ((\<exists>e. doc = Inl e)
        \<or> (\<exists>pages pg e. doc = Inr pages \<and> pg \<in> set pages
              \<and> (extract_text pg = Inl e \<or> extract_tables pg = Inl e))
        \<longrightarrow> extract_from_pdf lib doc = Inr []
            \<and> extract_from_remittance_advice lib doc = Inr [])"
proof -
  have total1: "\<exists>found. extract_from_pdf lib doc = Inr found"
    by (cases "extract_from_pdf_try lib doc") (simp_all add: extract_from_pdf_def)
  have total2: "\<exists>found. extract_from_remittance_advice lib doc = Inr found"
    by (cases "extract_from_remittance_advice_try lib doc")
       (simp_all add: extract_from_remittance_advice_def)
  have empty1: "(\<exists>e. extract_from_pdf_try lib doc = Inl e) \<longrightarrow> extract_from_pdf lib doc = Inr []"
    by (auto simp: extract_from_pdf_def)
  have empty2: "(\<exists>e. extract_from_remittance_advice_try lib doc = Inl e)
        \<longrightarrow> extract_from_remittance_advice lib doc = Inr []"
    by (auto simp: extract_from_remittance_advice_def)
  have failing: "extract_from_pdf lib doc = Inr []
            \<and> extract_from_remittance_advice lib doc = Inr []"
    if "(\<exists>e. doc = Inl e)
        \<or> (\<exists>pages pg e. doc = Inr pages \<and> pg \<in> set pages
              \<and> (extract_text pg = Inl e \<or> extract_tables pg = Inl e))"
    using that
  proof
    assume "\<exists>e. doc = Inl e"
    then show ?thesis
      by (auto simp: extract_from_pdf_def extract_from_pdf_try_def
            extract_from_remittance_advice_def extract_from_remittance_advice_try_def seq_def)
  next
    assume "\<exists>pages pg e. doc = Inr pages \<and> pg \<in> set pages
              \<and> (extract_text pg = Inl e \<or> extract_tables pg = Inl e)"
    then obtain pages pg e where d: "doc = Inr pages" and m: "pg \<in> set pages"
      and f: "extract_text pg = Inl e \<or> extract_tables pg = Inl e" by blast
    obtain e1 where "pdf_pages lib pages ([], None) = Inl e1"
      using pdf_pages_raises[OF m f] by blast
    moreover obtain e2 where "remittance_pages lib pages [] = Inl e2"
      using remittance_pages_raises[OF m f] by blast
    ultimately show ?thesis
      by (simp add: d extract_from_pdf_def extract_from_pdf_try_def
            extract_from_remittance_advice_def extract_from_remittance_advice_try_def seq_def)
  qed
  from total1 total2 empty1 empty2 failing show ?thesis by blast
qed

text \<open>A first page with a well-formed invoice table, then a page whose tables cannot be
  read: the candidate of the first page is lost with the rest.\<close>

theorem extractor_never_raises_witness:
  "extract_from_pdf
     \<lparr>findall = (\<lambda>p t. []), re_match = (\<lambda>p t. False), strptime = (\<lambda>t f. None)\<rparr>
     (Inr [\<lparr>extract_text = Inr (Some ''Remittance Advice''),
            extract_tables = Inr [[[Some ''Document Type'', Some ''Document Number'',
                                    Some ''Invoice Date'', Some ''Payment Amount'',
                                    Some ''Currency''],
                                   [Some ''Invoice'', Some ''A-1'', Some ''15/03/2024'',
                                    Some ''100.00'', Some ''USD'']]]\<rparr>,
           \<lparr>extract_text = Inr (Some ''page 2''),
            extract_tables = Inl (LibraryError ''corrupt page'')\<rparr>]) = Inr []
   \<and> extract_from_remittance_advice
     \<lparr>findall = (\<lambda>p t. []), re_match = (\<lambda>p t. False), strptime = (\<lambda>t f. None)\<rparr>
     (Inr [\<lparr>extract_text = Inr (Some ''Remittance Advice''),
            extract_tables = Inr [[[Some ''Document Type'', Some ''Document Number'',
                                    Some ''Invoice Date'', Some ''Payment Amount'',
                                    Some ''Currency''],
                                   [Some ''Invoice'', Some ''A-1'', Some ''15/03/2024'',
                                    Some ''100.00'', Some ''USD'']]]\<rparr>,
           \<lparr>extract_text = Inr (Some ''page 2''),
            extract_tables = Inl (LibraryError ''corrupt page'')\<rparr>]) = Inr []"
proof -
  let ?p1 = "\<lparr>extract_text = Inr (Some ''Remittance Advice''),
            extract_tables = Inr [[[Some ''Document Type'', Some ''Document Number'',
                                    Some ''Invoice Date'', Some ''Payment Amount'',
                                    Some ''Currency''],
                                   [Some ''Invoice'', Some ''A-1'', Some ''15/03/2024'',
                                    Some ''100.00'', Some ''USD'']]]\<rparr>"
  let ?p2 = "\<lparr>extract_text = Inr (Some ''page 2''),
            extract_tables = (Inl (LibraryError ''corrupt page'') :: error + table list)\<rparr>"
  have "\<exists>pages pg e. (Inr [?p1, ?p2] :: document) = Inr pages \<and> pg \<in> set pages
              \<and> (extract_text pg = Inl e \<or> extract_tables pg = Inl e)"
    by (rule exI[of _ "[?p1, ?p2]"], rule exI[of _ ?p2],
        rule exI[of _ "LibraryError ''corrupt page''"]) simp
  then show ?thesis
    using extractor_never_raises[where doc = "Inr [?p1, ?p2]"
        and lib = "\<lparr>findall = (\<lambda>p t. []), re_match = (\<lambda>p t. False), strptime = (\<lambda>t f. None)\<rparr>"]
    by blast
qed

subsection \<open>C2: loading a file whose content is not what was saved\<close>

text \<open>
  Claim C2 says that \<open>load_invoices\<close> never raises, whatever the file holds.  The handler
  names \<open>JSONDecodeError\<close>, \<open>KeyError\<close>, \<open>ValueError\<close> and \<open>IndexError\<close> only.  A file whose
  one invoice has the amount \<open>null\<close> makes \<open>float\<close> raise \<open>TypeError\<close>, and a file that
  holds the JSON array \<open>[]\<close> makes \<open>data.get\<close> raise \<open>AttributeError\<close>; both leave
  \<open>load_invoices\<close>, and the constructor that called it.
\<close>

theorem load_invoices_lets_type_errors_out:
  "calculator_init fl
     \<lparr>contents = (\<lambda>p. if p = ''data/invoices.json''
          then Some (Json (JObj [(''invoices'',
                 JArr [JObj [(''date'', JStr ''2024-01-15''), (''amount'', JNull),
                             (''description'', JStr ''x''), (''invoice_id'', JStr ''a'')]])]))
          else None),
      writable = (\<lambda>p. True)\<rparr> ''data'' None 0.2 0.05 [] = Inl TypeError
   \<and> calculator_init fl
     \<lparr>contents = (\<lambda>p. if p = ''data/invoices.json'' then Some (Json (JArr [])) else None),
      writable = (\<lambda>p. True)\<rparr> ''data'' None 0.2 0.05 [] = Inl AttributeError"
proof -
  have d: "split_on CHR ''-'' ''2024-01-15'' = [''2024'', ''01'', ''15'']" by simp
  have i: "py_int ''2024'' = Some 2024" "py_int ''01'' = Some 1" "py_int ''15'' = Some 15"
    by (simp_all add: py_int_def strip_def is_space_def parse_digits_def is_digit_def digit_val_def)
  have p: "py_date 2024 1 15 = Inr \<lparr>year = 2024, month = 1, day = 15\<rparr>"
    by (simp add: py_date_def c_int_def valid_date_def MINYEAR_def MAXYEAR_def days_in_month_def)
  have null_amount: "calculator_init fl
     \<lparr>contents = (\<lambda>p. if p = ''data/invoices.json''
          then Some (Json (JObj [(''invoices'',
                 JArr [JObj [(''date'', JStr ''2024-01-15''), (''amount'', JNull),
                             (''description'', JStr ''x''), (''invoice_id'', JStr ''a'')]])]))
          else None),
      writable = (\<lambda>p. True)\<rparr> ''data'' None 0.2 0.05 [] = Inl TypeError"
    by (simp add: calculator_init_def path_join_def load_invoices_def load_body_def dict_get_def
          py_iter_def seq_def load_invoice_def subscript_def split_dash_def ints_of_def d i p
          py_float_def load_caught_def)
  have top_level_array: "calculator_init fl
     \<lparr>contents = (\<lambda>p. if p = ''data/invoices.json'' then Some (Json (JArr [])) else None),
      writable = (\<lambda>p. True)\<rparr> ''data'' None 0.2 0.05 [] = Inl AttributeError"
    by (simp add: calculator_init_def path_join_def load_invoices_def load_body_def dict_get_def
          seq_def load_caught_def)
  from null_amount top_level_array show ?thesis by simp
qed

subsection \<open>C8: dates in the table pass\<close>

text \<open>The two examples of claim C8: day, month and year are read in this order from a
  date with slashes, and a date with month 13 skips its row.\<close>

lemma table_date_examples:
  "table_date ''15/03/2024'' dv = Go (Some \<lparr>year = 2024, month = 3, day = 15\<rparr>)
   \<and> table_date ''2024-13-40'' dv = Skip"
proof -
  have s1: "split_on CHR ''/'' ''15/03/2024'' = [''15'', ''03'', ''2024'']" by simp
  have s2: "split_on CHR ''-'' ''2024-13-40'' = [''2024'', ''13'', ''40'']" by simp
  have i: "py_int ''2024'' = Some 2024" "py_int ''03'' = Some 3" "py_int ''15'' = Some 15"
    "py_int ''13'' = Some 13" "py_int ''40'' = Some 40"
    by (simp_all add: py_int_def strip_def is_space_def parse_digits_def is_digit_def digit_val_def)
  have p1: "py_date 2024 3 15 = Inr \<lparr>year = 2024, month = 3, day = 15\<rparr>"
    by (simp add: py_date_def c_int_def valid_date_def MINYEAR_def MAXYEAR_def days_in_month_def)
  have p2: "py_date 2024 13 40 = Inl ValueError"
    by (simp add: py_date_def c_int_def valid_date_def)
  show ?thesis
    by (simp add: table_date_def s1 s2 date_of_parts_def i p1 p2)
qed

text \<open>
  Claim C8 says that a row's date is read as day/month/year when it holds a slash, as
  year-month-day when it holds a dash, and that the row is skipped otherwise or when a
  component is unusable.  A date that splits into fewer or more than three parts takes
  none of these ways: the block assigns nothing, no \<open>continue\<close> follows, and the
  row is emitted with whatever the variable \<open>date\<close> held.  Below, the row dated
  \<open>03/2024\<close> comes out with the date of the row before it; as the first row of the
  document it raises \<open>UnboundLocalError\<close> and the whole call returns the empty list.
\<close>

theorem table_row_keeps_stale_date:
  "extract_from_pdf
     \<lparr>findall = (\<lambda>p t. []), re_match = (\<lambda>p t. False), strptime = (\<lambda>t f. None)\<rparr>
     (Inr [\<lparr>extract_text = Inr (Some ''Invoices''),
            extract_tables = Inr [[[Some ''Invoice Type'', Some ''Invoice Number'',
                                    Some ''Invoice Date'', Some ''Amount'', Some ''Currency''],
                                   [Some ''Invoice'', Some ''A-1'', Some ''15/03/2024'',
                                    Some ''100.00'', Some ''USD''],
                                   [Some ''Invoice'', Some ''A-2'', Some ''03/2024'',
                                    Some ''250.00'', Some ''USD'']]]\<rparr>])
   = Inr [\<lparr>cand_date = \<lparr>year = 2024, month = 3, day = 15\<rparr>, cand_amount = 100,
           cand_description = ''Invoice: A-1'', cand_currency = ''USD'',
           cand_doc_number = ''A-1''\<rparr>,
          \<lparr>cand_date = \<lparr>year = 2024, month = 3, day = 15\<rparr>, cand_amount = 250,
           cand_description = ''Invoice: A-2'', cand_currency = ''USD'',
           cand_doc_number = ''A-2''\<rparr>]
   \<and> extract_from_pdf_try
     \<lparr>findall = (\<lambda>p t. []), re_match = (\<lambda>p t. False), strptime = (\<lambda>t f. None)\<rparr>
     (Inr [\<lparr>extract_text = Inr (Some ''Invoices''),
            extract_tables = Inr [[[Some ''Invoice Type'', Some ''Invoice Number'',
                                    Some ''Invoice Date'', Some ''Amount'', Some ''Currency''],
                                   [Some ''Invoice'', Some ''A-2'', Some ''03/2024'',
                                    Some ''250.00'', Some ''USD'']]]\<rparr>])
   = Inl UnboundLocalError"
  by code_simp

end
